theory Spec2Isabelle
  imports Main
begin

section \<open>Strings\<close>

type_synonym bytes = string

text \<open>\<open>str.startswith\<close>, \<open>str.split('/')\<close>, and \<open>s.split(c, 1)\<close> for a \<open>c\<close> that occurs in \<open>s\<close>.\<close>

definition startswith :: "string \<Rightarrow> string \<Rightarrow> bool" where
  "startswith s p = (take (length p) s = p)"

fun split_on :: "char \<Rightarrow> string \<Rightarrow> string list" where
  "split_on sep [] = [] # []"
| "split_on sep (c # cs) =
     (if c = sep then [] # split_on sep cs
      else (case split_on sep cs of [] \<Rightarrow> [c] # [] | w # ws \<Rightarrow> (c # w) # ws))"

definition split_sep :: "string \<Rightarrow> string list" where
  "split_sep s = split_on CHR ''/'' s"

definition split_first :: "char \<Rightarrow> string \<Rightarrow> (string \<times> string) option" where
  "split_first sep s =
     (if sep \<in> set s
      then Some (takeWhile (\<lambda>c. c \<noteq> sep) s, tl (dropWhile (\<lambda>c. c \<noteq> sep) s))
      else None)"

text \<open>
  \<open>str.lower\<close> and \<open>str.upper\<close> on the letters of ASCII. Every string they are compared
  with here (method names, table suffixes, the unit \<open>bytes\<close>) is ASCII, so that a string
  with another letter matches none of them either way.
\<close>

definition lower :: "string \<Rightarrow> string" where
  "lower s =
     map (\<lambda>c. case map_of (zip ''ABCDEFGHIJKLMNOPQRSTUVWXYZ'' ''abcdefghijklmnopqrstuvwxyz'') c of
                Some d \<Rightarrow> d | None \<Rightarrow> c) s"

definition upper :: "string \<Rightarrow> string" where
  "upper s =
     map (\<lambda>c. case map_of (zip ''abcdefghijklmnopqrstuvwxyz'' ''ABCDEFGHIJKLMNOPQRSTUVWXYZ'') c of
                Some d \<Rightarrow> d | None \<Rightarrow> c) s"

text \<open>\<open>str.strip\<close>: the white space of a string whose characters are bytes.\<close>

definition is_space :: "char \<Rightarrow> bool" where
  "is_space c = ((of_char c :: nat) \<in> {9, 10, 11, 12, 13, 28, 29, 30, 31, 32, 133, 160})"

definition strip :: "string \<Rightarrow> string" where
  "strip s = rev (dropWhile is_space (rev (dropWhile is_space s)))"

text \<open>An optional minus sign and one or more decimal digits, as an integer.\<close>

definition digit_val :: "char \<Rightarrow> int option" where
  "digit_val c =
     map_of [(CHR ''0'', 0), (CHR ''1'', 1), (CHR ''2'', 2), (CHR ''3'', 3), (CHR ''4'', 4),
             (CHR ''5'', 5), (CHR ''6'', 6), (CHR ''7'', 7), (CHR ''8'', 8), (CHR ''9'', 9)] c"

fun digits_val :: "int \<Rightarrow> string \<Rightarrow> int option" where
  "digits_val acc [] = Some acc"
| "digits_val acc (c # cs) =
     (case digit_val c of None \<Rightarrow> None | Some d \<Rightarrow> digits_val (10 * acc + d) cs)"

definition plain_int :: "string \<Rightarrow> int option" where
  "plain_int s =
     (case s of
        [] \<Rightarrow> None
      | c # cs \<Rightarrow>
          if c = CHR ''-''
          then (if cs = [] then None else map_option uminus (digits_val 0 cs))
          else digits_val 0 s)"

section \<open>The file system\<close>

text \<open>
  The file system is the tree below \<open>/\<close>. A regular file has its contents, the time of
  its last change, and the fact whether the process may read it; a directory has its
  entries and the fact whether the process may create entries in it. The working
  directory of the process is given by the names that lead to it from \<open>/\<close>.
\<close>

datatype node = File bool nat bytes | Dir bool "string \<Rightarrow> node option"

record filesystem =
  tree :: node
  cwd :: "string list"

text \<open>The node at the end of a list of names.\<close>

fun lookup_at :: "string list \<Rightarrow> node \<Rightarrow> node option" where
  "lookup_at [] n = Some n"
| "lookup_at (c # cs) n =
     (case n of
        File _ _ _ \<Rightarrow> None
      | Dir _ m \<Rightarrow> (case m c of None \<Rightarrow> None | Some n' \<Rightarrow> lookup_at cs n'))"

text \<open>
  Resolution of the components of a path string. An empty component or \<open>.\<close> stays in
  the directory, and fails on a regular file as the system call does (\<open>ENOTDIR\<close>). No
  path that the program resolves has a component \<open>..\<close> (the script passes none, and
  \<open>safe_join\<close> leaves none); such a path resolves to nothing here.
\<close>

fun walk :: "node \<Rightarrow> string list \<Rightarrow> node option" where
  "walk n [] = Some n"
| "walk n (c # cs) =
     (case n of
        File _ _ _ \<Rightarrow> None
      | Dir _ m \<Rightarrow>
          (if c = [] \<or> c = ''.'' then walk n cs
           else if c = ''..'' then None
           else (case m c of None \<Rightarrow> None | Some n' \<Rightarrow> walk n' cs)))"

text \<open>
  \<open>os.stat\<close> of a path string taken relative to a directory \<open>base\<close> (an absolute path
  ignores the base, as in \<open>os.path.join\<close>), and of a path relative to the working
  directory.
\<close>

definition stat_from :: "filesystem \<Rightarrow> string list \<Rightarrow> string \<Rightarrow> node option" where
  "stat_from fs base p =
     (if p = [] then None
      else if startswith p ''/'' then walk (tree fs) (split_sep p)
      else (case lookup_at base (tree fs) of
              None \<Rightarrow> None
            | Some n \<Rightarrow> walk n (split_sep p)))"

definition stat :: "filesystem \<Rightarrow> string \<Rightarrow> node option" where
  "stat fs p = stat_from fs (cwd fs) p"

text \<open>\<open>os.path.isdir\<close> and \<open>os.path.isfile\<close>.\<close>

definition isdir :: "filesystem \<Rightarrow> string \<Rightarrow> bool" where
  "isdir fs p = (case stat fs p of Some (Dir _ _) \<Rightarrow> True | _ \<Rightarrow> False)"

definition isfile_from :: "filesystem \<Rightarrow> string list \<Rightarrow> string \<Rightarrow> bool" where
  "isfile_from fs base p = (case stat_from fs base p of Some (File _ _ _) \<Rightarrow> True | _ \<Rightarrow> False)"

text \<open>May the process create an entry in the working directory?\<close>

definition writable :: "filesystem \<Rightarrow> bool" where
  "writable fs = (case lookup_at (cwd fs) (tree fs) of Some (Dir w _) \<Rightarrow> w | _ \<Rightarrow> False)"

section \<open>Directory provisioning (lines 7 to 19)\<close>

definition UPLOAD_FOLDER :: string where "UPLOAD_FOLDER = ''uploads''"
definition PROCESSED_FOLDER :: string where "PROCESSED_FOLDER = ''processed_videos''"
definition TEMPLATES_FOLDER :: string where "TEMPLATES_FOLDER = ''templates''"
definition STATIC_FOLDER :: string where "STATIC_FOLDER = ''static''"

datatype os_error = FileExistsError | PermissionError | FileNotFoundError | IsADirectoryError

text \<open>Replacing the node at the end of a list of names.\<close>

fun update_at :: "string list \<Rightarrow> (node \<Rightarrow> node) \<Rightarrow> node \<Rightarrow> node" where
  "update_at [] f n = f n"
| "update_at (c # cs) f n =
     (case n of
        File r t b \<Rightarrow> File r t b
      | Dir w m \<Rightarrow>
          (case m c of None \<Rightarrow> Dir w m | Some n' \<Rightarrow> Dir w (m(c \<mapsto> update_at cs f n'))))"

definition add_entry :: "string \<Rightarrow> node \<Rightarrow> node \<Rightarrow> node" where
  "add_entry name x n = (case n of File r t b \<Rightarrow> File r t b | Dir w m \<Rightarrow> Dir w (m(name \<mapsto> x)))"

text \<open>
  \<open>os.mkdir(name)\<close> for a one-component relative name, which is what every call of the
  source passes: the name must be free, the working directory must exist and the
  process must be allowed to write to it. The new directory is empty and the process
  may write to it. The error for an occupied name wins over the others; \<open>makedirs\<close>
  below does not depend on which of them is reported.
\<close>

definition mkdir :: "string \<Rightarrow> filesystem \<Rightarrow> os_error + filesystem" where
  "mkdir name fs =
     (if stat fs name \<noteq> None then Inl FileExistsError
      else (case lookup_at (cwd fs) (tree fs) of
              Some (Dir w m) \<Rightarrow>
                if \<not> w then Inl PermissionError
                else Inr (fs\<lparr>tree := update_at (cwd fs) (add_entry name (Dir True Map.empty)) (tree fs)\<rparr>)
            | _ \<Rightarrow> Inl FileNotFoundError))"

text \<open>
  \<open>os.makedirs(name, exist_ok=...)\<close> where \<open>name\<close> has no parent part, so that the
  recursion on the head of the path is skipped:
  \<^verbatim>\<open>
    try:
        mkdir(name, mode)
    except OSError:
        if not exist_ok or not path.isdir(name):
            raise
  \<close>
\<close>

definition makedirs :: "string \<Rightarrow> bool \<Rightarrow> filesystem \<Rightarrow> os_error + filesystem" where
  "makedirs name exist_ok fs =
     (case mkdir name fs of
        Inr fs' \<Rightarrow> Inr fs'
      | Inl e \<Rightarrow> (if \<not> exist_ok \<or> \<not> isdir fs name then Inl e else Inr fs))"

text \<open>
  Statements run in order and the first one that raises ends the script: the result is
  the error, if any, and the file system as the statements left it.
\<close>

fun makedirs_each :: "string list \<Rightarrow> filesystem \<Rightarrow> os_error option \<times> filesystem" where
  "makedirs_each [] fs = (None, fs)"
| "makedirs_each (d # ds) fs =
     (case makedirs d True fs of
        Inl e \<Rightarrow> (Some e, fs)
      | Inr fs' \<Rightarrow> makedirs_each ds fs')"

definition folders :: "string list" where
  "folders = [UPLOAD_FOLDER, PROCESSED_FOLDER, TEMPLATES_FOLDER, STATIC_FOLDER]"

definition create_directories :: "filesystem \<Rightarrow> os_error option \<times> filesystem" where
  "create_directories fs = makedirs_each folders fs"

section \<open>What the platform and the libraries supply\<close>

text \<open>
  \<open>app.py\<close> runs on Flask, Werkzeug and the standard library. Their code is modelled
  below as far as it decides status, type and body of a response. Four things are
  parameters of the model, fixed by the installation and not by \<open>app.py\<close>:
  \<^item> \<open>app_dir\<close>, the directory that holds \<open>app.py\<close>, which \<open>Flask(__name__)\<close> takes as the
    application's root path;
  \<^item> \<open>types_map\<close>, the table of \<open>mimetypes\<close> from file suffix to type, which differs between
    Python versions and reads the system's \<open>mime.types\<close> files, and \<open>guess_type_url\<close>, the
    guess for a name that contains a colon, which \<open>mimetypes\<close> parses as a URL;
  \<^item> \<open>validate\<close>, Werkzeug's comparison of the validators of a request (\<open>If-Match\<close>,
    \<open>If-None-Match\<close>, \<open>If-Modified-Since\<close>, \<open>If-Unmodified-Since\<close>) with the entity tag and
    the modification time of the file, which it derives from path, time and size;
  \<^item> \<open>if_range_unmodified\<close>, the same comparison for \<open>If-Range\<close>.
  The comparisons see the conditional headers of the request and nothing else of it.
\<close>

datatype verdict = Modified | Not_modified | Precondition_failed

record environment =
  app_dir :: "string list"
  types_map :: "string \<Rightarrow> string option"
  guess_type_url :: "string \<Rightarrow> string option"
  validate :: "(string \<Rightarrow> string option) \<Rightarrow> string \<Rightarrow> nat \<Rightarrow> nat \<Rightarrow> verdict"
  if_range_unmodified :: "(string \<Rightarrow> string option) \<Rightarrow> string \<Rightarrow> nat \<Rightarrow> nat \<Rightarrow> bool"

section \<open>Requests and responses\<close>

text \<open>
  A request is the WSGI environment that the server hands to the application: the
  method, the path, the query string, the request headers under their CGI names
  (\<open>HTTP_RANGE\<close> for \<open>Range\<close>) and the body.
\<close>

record request =
  request_method :: string
  path :: string
  query_string :: string
  headers :: "string \<Rightarrow> string option"
  body :: bytes

datatype http_exception =
  NotFound | MethodNotAllowed | RequestRedirect string | RequestedRangeNotSatisfiable
  | InternalServerError


text \<open>What a view can raise: an HTTP exception, or an exception that nothing handles.\<close>

datatype raised = HTTP http_exception | OS os_error | KeyError string | TypeError

text \<open>
  A response is its status, its content type if it has one, its body and the maximal
  age of its \<open>Cache-Control\<close> header if it has one; or the error page of an HTTP
  exception.
\<close>

datatype response = Response nat "string option" bytes "int option" | Error_response http_exception


section \<open>Serving files: \<open>send_from_directory\<close>\<close>

text \<open>\<open>posixpath.normpath\<close>, \<open>posixpath.join\<close> on two parts, and \<open>'/'.join\<close>.\<close>

fun norm_comps :: "bool \<Rightarrow> string list \<Rightarrow> string list \<Rightarrow> string list" where
  "norm_comps initial_slashes [] new_comps = new_comps"
| "norm_comps initial_slashes (part # parts) new_comps =
     (if part = [] \<or> part = ''.'' then norm_comps initial_slashes parts new_comps
      else if part \<noteq> ''..'' \<or> (\<not> initial_slashes \<and> new_comps = [])
              \<or> (new_comps \<noteq> [] \<and> last new_comps = ''..'')
        then norm_comps initial_slashes parts (new_comps @ [part])
      else if new_comps \<noteq> [] then norm_comps initial_slashes parts (butlast new_comps)
      else norm_comps initial_slashes parts new_comps)"

fun join_sep :: "string list \<Rightarrow> string" where
  "join_sep [] = []"
| "join_sep [c] = c"
| "join_sep (c # d # cs) = c @ ''/'' @ join_sep (d # cs)"

definition normpath :: "string \<Rightarrow> string" where
  "normpath p =
     (if p = [] then ''.''
      else
        let initial_slashes =
              (if startswith p ''/''
               then (if startswith p ''//'' \<and> \<not> startswith p ''///'' then 2 else 1)
               else (0::nat));
            q = replicate initial_slashes CHR ''/''
                @ join_sep (norm_comps (initial_slashes \<noteq> 0) (split_sep p) [])
        in if q = [] then ''.'' else q)"

definition path_join :: "string \<Rightarrow> string \<Rightarrow> string" where
  "path_join a b =
     (if startswith b ''/'' then b
      else if a = [] \<or> last a = CHR ''/'' then a @ b
      else a @ ''/'' @ b)"

text \<open>
  \<open>werkzeug.security.safe_join\<close> with one untrusted part, on a POSIX system (no
  alternative separators): the part is normalised, and refused when it is absolute or
  still leaves the directory.
\<close>

definition safe_join :: "string \<Rightarrow> string \<Rightarrow> string option" where
  "safe_join directory filename =
     (let directory = (if directory = [] then ''.'' else directory);
          filename = (if filename \<noteq> [] then normpath filename else filename)
      in if startswith filename ''/'' \<or> filename = ''..'' \<or> startswith filename ''../''
         then None
         else Some (path_join directory filename))"

text \<open>
  \<open>posixpath.splitext\<close>: the extension runs from the last dot of the last component,
  unless only dots come before it in that component.
\<close>

definition splitext :: "string \<Rightarrow> string \<times> string" where
  "splitext p =
     (let name = rev (takeWhile (\<lambda>c. c \<noteq> CHR ''/'') (rev p));
          ext = CHR ''.'' # rev (takeWhile (\<lambda>c. c \<noteq> CHR ''.'') (rev name));
          stem = take (length name - length ext) name
      in if CHR ''.'' \<in> set name \<and> list_ex (\<lambda>c. c \<noteq> CHR ''.'') stem
         then (take (length p - length ext) p, ext)
         else (p, []))"

text \<open>
  \<open>mimetypes.guess_type\<close> in its strict mode, after the source of Python 3.12, with the
  module's own \<open>suffix_map\<close> and \<open>encodings_map\<close>. The loop over \<open>suffix_map\<close> runs at most
  once, since no value of that table ends in one of its keys.
\<close>

definition suffix_map :: "(string \<times> string) list" where
  "suffix_map =
     [(''.svgz'', ''.svg.gz''), (''.tgz'', ''.tar.gz''), (''.taz'', ''.tar.gz''),
      (''.tz'', ''.tar.gz''), (''.tbz2'', ''.tar.bz2''), (''.txz'', ''.tar.xz'')]"

definition encodings_map :: "(string \<times> string) list" where
  "encodings_map =
     [(''.gz'', ''gzip''), (''.Z'', ''compress''), (''.bz2'', ''bzip2''), (''.xz'', ''xz''),
      (''.br'', ''br'')]"

definition guess_type :: "environment \<Rightarrow> string \<Rightarrow> string option" where
  "guess_type env url =
     (if CHR '':'' \<in> set url then guess_type_url env url
      else
        let (base, ext) = splitext url;
            (base, ext) = (case map_of suffix_map (lower ext) of
                             Some s \<Rightarrow> splitext (base @ s)
                           | None \<Rightarrow> (base, ext));
            ext = (if map_of encodings_map ext \<noteq> None then snd (splitext base) else ext)
        in types_map env (lower ext))"

text \<open>
  \<open>werkzeug.http.parse_range_header\<close> and \<open>Range.range_for_length\<close>: the unit and the list
  of ranges of a \<open>Range\<close> header, each range with its first byte and, if given, the byte
  after its last; and the one range of bytes it selects from a body of a given length.
\<close>

fun parse_items :: "string list \<Rightarrow> int \<Rightarrow> (int \<times> int option) list option" where
  "parse_items [] last_end = Some []"
| "parse_items (item # items) last_end =
     (let item = strip item
      in if CHR ''-'' \<notin> set item then None
         else if startswith item ''-'' then
           (if last_end < 0 then None
            else (case plain_int item of
                    None \<Rightarrow> None
                  | Some lo \<Rightarrow> map_option (Cons (lo, None)) (parse_items items (- 1))))
         else
           (case split_first CHR ''-'' item of
              None \<Rightarrow> None
            | Some (first_str, stop_str) \<Rightarrow>
                (case plain_int (strip first_str) of
                   None \<Rightarrow> None
                 | Some lo \<Rightarrow>
                     if lo < last_end \<or> last_end < 0 then None
                     else if strip stop_str \<noteq> [] then
                       (case plain_int (strip stop_str) of
                          None \<Rightarrow> None
                        | Some hi \<Rightarrow>
                            if lo \<ge> hi + 1 then None
                            else map_option (Cons (lo, Some (hi + 1)))
                                   (parse_items items (hi + 1)))
                     else map_option (Cons (lo, None)) (parse_items items (- 1)))))"

definition parse_range_header :: "string \<Rightarrow> (string \<times> (int \<times> int option) list) option" where
  "parse_range_header v =
     (case split_first CHR ''='' v of
        None \<Rightarrow> None
      | Some (units, rng) \<Rightarrow>
          map_option (Pair (lower (strip units))) (parse_items (split_on CHR '','' rng) 0))"

definition range_for_length :: "string \<times> (int \<times> int option) list \<Rightarrow> nat \<Rightarrow> (nat \<times> nat) option" where
  "range_for_length r len =
     (case r of
        (units, [(lo, stop)]) \<Rightarrow>
          if units \<noteq> ''bytes'' then None
          else
            (let lo' = (if stop = None \<and> lo < 0 then lo + int len else lo);
                 stop' = (case stop of None \<Rightarrow> int len | Some e \<Rightarrow> e)
             in if lo' \<ge> stop' \<or> lo' < 0 \<or> lo' \<ge> int len then None
                else Some (nat lo', nat (min stop' (int len))))
      | _ \<Rightarrow> None)"

text \<open>
  \<open>Response.make_conditional\<close> with \<open>accept_ranges=True\<close>, as \<open>send_file\<close> calls it, for a
  file of modification time \<open>mt\<close> and size \<open>sz\<close> at \<open>pth\<close>. It acts on GET and HEAD only.
  A \<open>Range\<close> header on a non-empty file, with no \<open>If-Range\<close> or with one that still holds,
  selects a part of the body (206) or is refused (416). Otherwise the validators decide:
  304 drops body and content type, 412 changes the status. A request without any
  validator is never held to be unmodified.
\<close>

definition validator_keys :: "string list" where
  "validator_keys =
     [''HTTP_IF_MATCH'', ''HTTP_IF_NONE_MATCH'', ''HTTP_IF_MODIFIED_SINCE'',
      ''HTTP_IF_UNMODIFIED_SINCE'']"

definition conditional_keys :: "string list" where
  "conditional_keys = ''HTTP_RANGE'' # ''HTTP_IF_RANGE'' # validator_keys"

definition conditional_headers :: "request \<Rightarrow> string \<Rightarrow> string option" where
  "conditional_headers r = (\<lambda>k. if k \<in> set conditional_keys then headers r k else None)"

definition resource_verdict :: "environment \<Rightarrow> request \<Rightarrow> string \<Rightarrow> nat \<Rightarrow> nat \<Rightarrow> verdict" where
  "resource_verdict env r pth mt sz =
     (if list_all (\<lambda>k. headers r k = None) validator_keys then Modified
      else validate env (conditional_headers r) pth mt sz)"

definition make_conditional ::
  "environment \<Rightarrow> request \<Rightarrow> string \<Rightarrow> nat \<Rightarrow> nat \<Rightarrow> response \<Rightarrow> raised + response" where
  "make_conditional env r pth mt sz rv =
     (case rv of
        Error_response e \<Rightarrow> Inr rv
      | Response s t d m \<Rightarrow>
          if request_method r = ''GET'' \<or> request_method r = ''HEAD'' then
            (if sz \<noteq> 0 \<and> headers r ''HTTP_RANGE'' \<noteq> None
                \<and> (headers r ''HTTP_IF_RANGE'' = None
                    \<or> if_range_unmodified env (conditional_headers r) pth mt sz)
             then
               (case headers r ''HTTP_RANGE'' of
                  None \<Rightarrow> Inr rv
                | Some v \<Rightarrow>
                    (case parse_range_header v of
                       None \<Rightarrow> Inl (HTTP RequestedRangeNotSatisfiable)
                     | Some pr \<Rightarrow>
                         (case range_for_length pr sz of
                            None \<Rightarrow> Inl (HTTP RequestedRangeNotSatisfiable)
                          | Some (lo, stop) \<Rightarrow>
                              Inr (Response 206 t (take (stop - lo) (drop lo d)) m))))
             else
               (case resource_verdict env r pth mt sz of
                  Modified \<Rightarrow> Inr rv
                | Not_modified \<Rightarrow> Inr (Response 304 None [] m)
                | Precondition_failed \<Rightarrow> Inr (Response 412 t d m)))
          else Inr rv)"

section \<open>The application object (lines 5, 12, 13, 21 to 23)\<close>

text \<open>
  \<open>Flask(__name__)\<close> takes the directory of the module as the root path and keeps the
  constructor's defaults \<open>static_folder='static'\<close> and \<open>static_url_path='/static'\<close>; with
  a static folder set the constructor registers the rule \<open>/static/<path:filename>\<close> for
  the endpoint \<open>static\<close>, served by \<open>send_static_file\<close>. \<open>@app.route('/')\<close> adds the rule
  \<open>/\<close> for \<open>index\<close>. A rule registered without \<open>methods\<close> accepts GET, HEAD and OPTIONS.

  \<open>app.config\<close> starts from the framework's defaults. Of these the model holds the
  entries that the handling of a request for a file reads and that change its status,
  type, body or cache age: \<open>USE_X_SENDFILE\<close>, \<open>SEND_FILE_MAX_AGE_DEFAULT\<close> and
  \<open>TRAP_HTTP_EXCEPTIONS\<close>, with the defaults of Flask 2 and 3. The application records
  that it has handled a request (\<open>_got_first_request\<close>).
\<close>

datatype config_value = Str_value string | Bool_value bool | Int_value int | None_value

definition truthy :: "config_value \<Rightarrow> bool" where
  "truthy v =
     (case v of
        Str_value s \<Rightarrow> (s \<noteq> [])
      | Bool_value b \<Rightarrow> b
      | Int_value n \<Rightarrow> (n \<noteq> 0)
      | None_value \<Rightarrow> False)"

datatype endpoint = Static_endpoint | Index_endpoint

datatype pattern = Literal string | With_path string

datatype rule = Rule pattern "string list" endpoint

record flask =
  config :: "string \<Rightarrow> config_value option"
  root_path :: "string list"
  static_folder :: string
  static_url_path :: string
  url_map :: "rule list"
  got_first_request :: bool

definition default_methods :: "string list" where
  "default_methods = [''GET'', ''HEAD'', ''OPTIONS'']"

definition default_config :: "string \<Rightarrow> config_value option" where
  "default_config =
     [''USE_X_SENDFILE'' \<mapsto> Bool_value False, ''SEND_FILE_MAX_AGE_DEFAULT'' \<mapsto> None_value,
      ''TRAP_HTTP_EXCEPTIONS'' \<mapsto> Bool_value False]"

definition Flask :: "environment \<Rightarrow> flask" where
  "Flask env =
     \<lparr>config = default_config, root_path = app_dir env, static_folder = ''static'',
      static_url_path = ''/static'',
      url_map = [Rule (With_path ''/static'') default_methods Static_endpoint],
      got_first_request = False\<rparr>"

definition config_set :: "string \<Rightarrow> config_value \<Rightarrow> flask \<Rightarrow> flask" where
  "config_set k v a = a\<lparr>config := (config a)(k \<mapsto> v)\<rparr>"

definition route :: "string \<Rightarrow> endpoint \<Rightarrow> flask \<Rightarrow> flask" where
  "route p ep a = a\<lparr>url_map := url_map a @ [Rule (Literal p) default_methods ep]\<rparr>"

definition app :: "environment \<Rightarrow> flask" where
  "app env =
     route ''/'' Index_endpoint
       (config_set ''PROCESSED_FOLDER'' (Str_value PROCESSED_FOLDER)
         (config_set ''UPLOAD_FOLDER'' (Str_value UPLOAD_FOLDER) (Flask env)))"

section \<open>\<open>send_file\<close>, \<open>send_from_directory\<close> and the two views\<close>

text \<open>
  \<open>get_send_file_max_age\<close> returns the configured value; \<open>send_file\<close> uses it as a
  number, which fails on a string.
\<close>

definition get_send_file_max_age :: "flask \<Rightarrow> raised + config_value" where
  "get_send_file_max_age a =
     (case config a ''SEND_FILE_MAX_AGE_DEFAULT'' of
        None \<Rightarrow> Inl (KeyError ''SEND_FILE_MAX_AGE_DEFAULT'')
      | Some v \<Rightarrow> Inr v)"

definition max_age_of :: "config_value \<Rightarrow> raised + int option" where
  "max_age_of v =
     (case v of
        None_value \<Rightarrow> Inr None
      | Int_value n \<Rightarrow> Inr (Some n)
      | Bool_value b \<Rightarrow> Inr (Some (if b then 1 else 0))
      | Str_value s \<Rightarrow> Inl TypeError)"

text \<open>The path string of a file below the root path, as the entity tag is computed from it.\<close>

definition abs_path :: "string list \<Rightarrow> string \<Rightarrow> string" where
  "abs_path base p = path_join (CHR ''/'' # join_sep base) p"

text \<open>
  \<open>werkzeug.utils.send_file\<close> for a path: the type is guessed from the name of the file,
  \<open>application/octet-stream\<close> when there is no guess; the file is opened unless
  \<open>use_x_sendfile\<close> leaves the body to the front server, and opening a file that the
  process may not read raises; the response is made conditional. Nothing is written:
  the file system is returned as it was received.
\<close>

definition send_file ::
  "environment \<Rightarrow> filesystem \<Rightarrow> request \<Rightarrow> string list \<Rightarrow> string \<Rightarrow> bool
   \<Rightarrow> raised + config_value \<Rightarrow> (raised + response) \<times> filesystem" where
  "send_file env fs r base p use_x_sendfile max_age =
     (case stat_from fs base p of
        None \<Rightarrow> (Inl (OS FileNotFoundError), fs)
      | Some (Dir _ _) \<Rightarrow> (Inl (OS IsADirectoryError), fs)
      | Some (File readable mt c) \<Rightarrow>
          (let mimetype =
                 (case guess_type env (last (split_sep p)) of
                    Some t \<Rightarrow> t | None \<Rightarrow> ''application/octet-stream'')
           in if \<not> use_x_sendfile \<and> \<not> readable then (Inl (OS PermissionError), fs)
              else
                (case max_age of
                   Inl x \<Rightarrow> (Inl x, fs)
                 | Inr v \<Rightarrow>
                     (case max_age_of v of
                        Inl x \<Rightarrow> (Inl x, fs)
                      | Inr m \<Rightarrow>
                          (make_conditional env r (abs_path base p) mt (length c)
                             (Response 200 (Some mimetype) (if use_x_sendfile then [] else c) m),
                           fs)))))"

text \<open>
  Flask's \<open>send_from_directory\<close>: it reads \<open>USE_X_SENDFILE\<close>, joins the two parts safely,
  resolves the result below the application's root path, and raises \<open>NotFound\<close> unless
  that is a regular file.
\<close>

definition send_from_directory ::
  "environment \<Rightarrow> flask \<Rightarrow> filesystem \<Rightarrow> request \<Rightarrow> string \<Rightarrow> string
   \<Rightarrow> raised + config_value \<Rightarrow> (raised + response) \<times> filesystem" where
  "send_from_directory env a fs r directory p max_age =
     (case config a ''USE_X_SENDFILE'' of
        None \<Rightarrow> (Inl (KeyError ''USE_X_SENDFILE''), fs)
      | Some x \<Rightarrow>
          (case safe_join directory p of
             None \<Rightarrow> (Inl (HTTP NotFound), fs)
           | Some path_str \<Rightarrow>
               if \<not> isfile_from fs (root_path a) path_str then (Inl (HTTP NotFound), fs)
               else send_file env fs r (root_path a) path_str (truthy x) max_age))"

text \<open>
  The view of the script. It has no parameter; the request is the one Flask keeps for
  the running call, which \<open>send_from_directory\<close> reads. The maximal age is asked for
  only when \<open>send_file\<close> needs it.
\<close>

definition index ::
  "environment \<Rightarrow> flask \<Rightarrow> filesystem \<Rightarrow> request \<Rightarrow> (raised + response) \<times> filesystem" where
  "index env a fs r =
     send_from_directory env a fs r TEMPLATES_FOLDER ''index.html'' (get_send_file_max_age a)"

text \<open>The view of the static rule, which asks for the maximal age first.\<close>

definition send_static_file ::
  "environment \<Rightarrow> flask \<Rightarrow> filesystem \<Rightarrow> request \<Rightarrow> string
   \<Rightarrow> (raised + response) \<times> filesystem" where
  "send_static_file env a fs r filename =
     (case get_send_file_max_age a of
        Inl x \<Rightarrow> (Inl x, fs)
      | Inr v \<Rightarrow> send_from_directory env a fs r (static_folder a) filename (Inr v))"

section \<open>Routing and dispatch\<close>

text \<open>
  A literal rule matches its own path. \<open>prefix/<path:filename>\<close> matches the prefix, a
  slash and a non-empty rest that does not start with a slash and has no line feed,
  which is the value of \<open>filename\<close>.
\<close>

fun match_pattern :: "pattern \<Rightarrow> string \<Rightarrow> string option" where
  "match_pattern (Literal p) s = (if s = p then Some [] else None)"
| "match_pattern (With_path p) s =
     (let rest = drop (length p + 1) s
      in if startswith s (p @ ''/'') \<and> rest \<noteq> [] \<and> hd rest \<noteq> CHR ''/''
            \<and> CHR 0x0A \<notin> set rest
         then Some rest else None)"

fun find_rule :: "rule list \<Rightarrow> string \<Rightarrow> string \<Rightarrow> (endpoint \<times> string) option" where
  "find_rule [] m s = None"
| "find_rule (Rule pat ms ep # rs) m s =
     (case match_pattern pat s of
        Some arg \<Rightarrow> if m \<in> set ms then Some (ep, arg) else find_rule rs m s
      | None \<Rightarrow> find_rule rs m s)"

fun have_match_for :: "rule list \<Rightarrow> string \<Rightarrow> bool" where
  "have_match_for [] s = False"
| "have_match_for (Rule pat ms ep # rs) s =
     (match_pattern pat s \<noteq> None \<or> have_match_for rs s)"

text \<open>
  Strict slashes: a path that a rule ending in a slash would match with one more slash,
  under a method the rule accepts.
\<close>

fun slash_required :: "rule list \<Rightarrow> string \<Rightarrow> string \<Rightarrow> bool" where
  "slash_required [] m s = False"
| "slash_required (Rule (Literal p) ms ep # rs) m s =
     ((p = s @ ''/'' \<and> m \<in> set ms) \<or> slash_required rs m s)"
| "slash_required (Rule (With_path p) ms ep # rs) m s = slash_required rs m s"

fun merge_slashes :: "string \<Rightarrow> string" where
  "merge_slashes (a # b # cs) =
     (if a = CHR ''/'' \<and> b = CHR ''/'' then merge_slashes (b # cs)
      else a # merge_slashes (b # cs))"
| "merge_slashes cs = cs"

text \<open>
  The router compares the method in upper case. Leading slashes of the path count as
  one. A path that needs one more slash is redirected there. A path that matches no
  rule is tried again with every run of slashes merged, and a match found that way is
  answered by a redirect to the merged path. When no rule takes the request, it is
  \<open>MethodNotAllowed\<close> if some rule matched the path under another method, and
  \<open>NotFound\<close> otherwise.
\<close>

definition path_part :: "string \<Rightarrow> string" where
  "path_part s = (if s = [] then [] else CHR ''/'' # dropWhile (\<lambda>c. c = CHR ''/'') s)"

definition match_request :: "flask \<Rightarrow> request \<Rightarrow> http_exception + (endpoint \<times> string)" where
  "match_request a r =
     (let m = upper (request_method r);
          p = path_part (path r);
          q = merge_slashes p
      in case find_rule (url_map a) m p of
           Some x \<Rightarrow> Inr x
         | None \<Rightarrow>
             if slash_required (url_map a) m p then Inl (RequestRedirect (p @ ''/''))
             else
               (case find_rule (url_map a) m q of
                  Some _ \<Rightarrow> Inl (RequestRedirect q)
                | None \<Rightarrow>
                    if slash_required (url_map a) m q then Inl (RequestRedirect (q @ ''/''))
                    else if have_match_for (url_map a) p \<or> have_match_for (url_map a) q
                    then Inl MethodNotAllowed else Inl NotFound))"

definition dispatch_request ::
  "environment \<Rightarrow> flask \<Rightarrow> filesystem \<Rightarrow> request \<Rightarrow> endpoint \<Rightarrow> string
   \<Rightarrow> (raised + response) \<times> filesystem" where
  "dispatch_request env a fs r ep arg =
     (case ep of
        Index_endpoint \<Rightarrow> index env a fs r
      | Static_endpoint \<Rightarrow> send_static_file env a fs r arg)"

text \<open>
  An HTTP exception becomes the response of its status, unless \<open>TRAP_HTTP_EXCEPTIONS\<close>
  holds it back; what is held back and every other exception is answered with status
  500 (by the framework, or by the debugger of \<open>app.run(debug=True)\<close>).
\<close>

definition handle_user_exception :: "flask \<Rightarrow> raised \<Rightarrow> response" where
  "handle_user_exception a x =
     (case x of
        HTTP e \<Rightarrow>
          (case config a ''TRAP_HTTP_EXCEPTIONS'' of
             None \<Rightarrow> Error_response InternalServerError
           | Some v \<Rightarrow> if truthy v then Error_response InternalServerError else Error_response e)
      | _ \<Rightarrow> Error_response InternalServerError)"

text \<open>
  One request: the application notes that it has handled a request, the router picks
  the view, OPTIONS on a matched rule is answered by the framework without calling the
  view, and the answer to HEAD goes out without its body.
\<close>

definition full_dispatch_request ::
  "environment \<Rightarrow> flask \<Rightarrow> filesystem \<Rightarrow> request \<Rightarrow> response \<times> flask \<times> filesystem" where
  "full_dispatch_request env a fs r =
     (let a' = a\<lparr>got_first_request := True\<rparr>
      in case match_request a' r of
           Inl e \<Rightarrow> (handle_user_exception a' (HTTP e), a', fs)
         | Inr (ep, arg) \<Rightarrow>
             if upper (request_method r) = ''OPTIONS''
             then (Response 200 (Some ''text/html'') [] None, a', fs)
             else
               (let (rv, fs') = dispatch_request env a' fs r ep arg
                in case rv of
                     Inl x \<Rightarrow> (handle_user_exception a' x, a', fs')
                   | Inr (Response s t d m) \<Rightarrow>
                       (Response s t (if request_method r = ''HEAD'' then [] else d) m, a', fs')
                   | Inr (Error_response e) \<Rightarrow> (Error_response e, a', fs')))"

section \<open>The program: provisioning, then serving (lines 16 to 26)\<close>

text \<open>
  While the server runs, requests arrive and the world outside the process may change
  the file system between them (a template is added, a file is edited). \<open>serve\<close> answers
  the requests in order, each against the file system and the application object of
  its moment.
\<close>

datatype event = Request request | Change "filesystem \<Rightarrow> filesystem"

fun serve ::
  "environment \<Rightarrow> flask \<Rightarrow> filesystem \<Rightarrow> event list \<Rightarrow> response list \<times> flask \<times> filesystem" where
  "serve env a fs [] = ([], a, fs)"
| "serve env a fs (Request r # es) =
     (let (rv, a', fs') = full_dispatch_request env a fs r;
          (rvs, a'', fs'') = serve env a' fs' es
      in (rv # rvs, a'', fs''))"
| "serve env a fs (Change f # es) = serve env a (f fs) es"

text \<open>
  The script: the four \<open>os.makedirs\<close> calls, and \<open>app.run\<close> only when all of them
  returned. \<open>Crashed\<close> is the script ended by the exception, before \<open>app.run\<close>.
\<close>

datatype outcome = Crashed os_error filesystem | Served "response list" filesystem

definition program :: "environment \<Rightarrow> flask \<Rightarrow> filesystem \<Rightarrow> event list \<Rightarrow> outcome" where
  "program env a fs es =
     (case create_directories fs of
        (Some e, fs') \<Rightarrow> Crashed e fs'
      | (None, fs') \<Rightarrow> (let (rvs, a', fs'') = serve env a fs' es in Served rvs fs''))"

definition main :: "environment \<Rightarrow> filesystem \<Rightarrow> event list \<Rightarrow> outcome" where
  "main env fs es = program env (app env) fs es"

text \<open>
  The script without lines 12 and 13: the same application object, with no entry
  assigned in \<open>app.config\<close>.
\<close>

definition app_without_config :: "environment \<Rightarrow> flask" where
  "app_without_config env = route ''/'' Index_endpoint (Flask env)"

definition main_without_config :: "environment \<Rightarrow> filesystem \<Rightarrow> event list \<Rightarrow> outcome" where
  "main_without_config env fs es = program env (app_without_config env) fs es"

text \<open>A name of one component that is neither empty nor \<open>.\<close> nor \<open>..\<close>.\<close>

definition simple :: "string \<Rightarrow> bool" where
  "simple d = (d \<noteq> [] \<and> d \<noteq> ''.'' \<and> d \<noteq> ''..'' \<and> CHR ''/'' \<notin> set d)"

section \<open>Example inputs\<close>

text \<open>
  An installation whose type table knows \<open>.html\<close> and \<open>.js\<close>, with the application in
  \<open>/srv\<close>; file systems with and without the template; a GET request without headers,
  one with a \<open>Range\<close> header, and one with a query string, a body and a header that name
  another file.
\<close>

abbreviation example_env :: environment where
  "example_env \<equiv>
     \<lparr>app_dir = [''srv''],
      types_map = [''.html'' \<mapsto> ''text/html'', ''.js'' \<mapsto> ''text/javascript''],
      guess_type_url = (\<lambda>u. None),
      validate = (\<lambda>h p t n. Modified),
      if_range_unmodified = (\<lambda>h p t n. False)\<rparr>"

abbreviation example_fs :: filesystem where
  "example_fs \<equiv>
     \<lparr>tree = Dir True [''srv'' \<mapsto> Dir True
               [''templates'' \<mapsto> Dir True [''index.html'' \<mapsto> File True 0 ''hi''],
                ''static'' \<mapsto> Dir True [''app.js'' \<mapsto> File True 0 ''let x = 1'']]],
      cwd = [''home'']\<rparr>"


abbreviation get :: "string \<Rightarrow> request" where
  "get p \<equiv> \<lparr>request_method = ''GET'', path = p, query_string = [], headers = Map.empty, body = []\<rparr>"

abbreviation get_range :: "string \<Rightarrow> string \<Rightarrow> request" where
  "get_range p v \<equiv>
     \<lparr>request_method = ''GET'', path = p, query_string = [],
      headers = [''HTTP_RANGE'' \<mapsto> v], body = []\<rparr>"

abbreviation empty_fs :: filesystem where
  "empty_fs \<equiv> \<lparr>tree = Dir True Map.empty, cwd = []\<rparr>"

abbreviation provisioned_fs :: filesystem where
  "provisioned_fs \<equiv>
     \<lparr>tree = Dir True [''uploads'' \<mapsto> Dir True Map.empty, ''processed_videos'' \<mapsto> Dir True Map.empty,
                      ''templates'' \<mapsto> Dir True Map.empty, ''static'' \<mapsto> Dir True Map.empty],
      cwd = []\<rparr>"

abbreviation occupied_fs :: filesystem where
  "occupied_fs \<equiv> \<lparr>tree = Dir True [''uploads'' \<mapsto> File True 0 ''x''], cwd = []\<rparr>"



section \<open>Auxiliary facts\<close>

lemma split_on_absent: "sep \<notin> set d \<Longrightarrow> split_on sep d = [d]"
  by (induction d) auto

lemma split_sep_simple: "CHR ''/'' \<notin> set d \<Longrightarrow> split_sep d = [d]"
  by (simp add: split_sep_def split_on_absent)

lemma stat_simple:
  "simple d \<Longrightarrow> stat fs d =
     (case lookup_at (cwd fs) (tree fs) of Some (Dir w m) \<Rightarrow> m d | _ \<Rightarrow> None)"
  by (cases d)
     (auto simp: simple_def stat_def stat_from_def startswith_def split_sep_simple
           split: option.splits node.splits)

lemma lookup_update_at: "lookup_at cs (update_at cs f n) = map_option f (lookup_at cs n)"
proof (induction cs arbitrary: n)
  case Nil
  then show ?case by simp
next
  case (Cons c cs)
  then show ?case by (cases n) (auto split: option.splits)
qed

lemma makedirs_simple:
  "simple d \<Longrightarrow> makedirs d True fs =
     (case lookup_at (cwd fs) (tree fs) of
        Some (Dir w m) \<Rightarrow>
          (case m d of
             Some (Dir w' m') \<Rightarrow> Inr fs
           | Some (File r t c) \<Rightarrow> Inl FileExistsError
           | None \<Rightarrow>
               if w then Inr (fs\<lparr>tree := update_at (cwd fs) (add_entry d (Dir True Map.empty)) (tree fs)\<rparr>)
               else Inl PermissionError)
      | _ \<Rightarrow> Inl FileNotFoundError)"
  by (auto simp: makedirs_def mkdir_def isdir_def stat_simple split: option.splits node.splits)

lemma isdir_simple:
  "simple d \<Longrightarrow> isdir fs d =
     (\<exists>w m w' m'. lookup_at (cwd fs) (tree fs) = Some (Dir w m) \<and> m d = Some (Dir w' m'))"
  by (auto simp: isdir_def stat_simple split: option.splits node.splits)

lemma free_writable_simple:
  "simple d \<Longrightarrow> (stat fs d = None \<and> writable fs) =
     (\<exists>m. lookup_at (cwd fs) (tree fs) = Some (Dir True m) \<and> m d = None)"
  by (auto simp: writable_def stat_simple split: option.splits node.splits)

lemma lookup_after_mkdir:
  "lookup_at (cwd fs) (tree fs) = Some (Dir w m) \<Longrightarrow>
   lookup_at (cwd fs) (update_at (cwd fs) (add_entry d x) (tree fs)) = Some (Dir w (m(d \<mapsto> x)))"
  by (simp add: lookup_update_at add_entry_def)

lemma makedirs_each_all_dirs:
  "\<forall>d\<in>set ds. simple d \<and> isdir fs d \<Longrightarrow> makedirs_each ds fs = (None, fs)"
proof (induction ds)
  case Nil
  then show ?case by simp
next
  case (Cons d ds)
  then obtain w m w' m' where "lookup_at (cwd fs) (tree fs) = Some (Dir w m)"
      and "m d = Some (Dir w' m')" and "simple d"
    by (auto simp: isdir_simple)
  then have "makedirs d True fs = Inr fs" by (simp add: makedirs_simple)
  then show ?case using Cons by simp
qed

lemma makedirs_step:
  assumes "simple d" and "makedirs d True fs = Inr fs'"
  shows "\<exists>w m. lookup_at (cwd fs) (tree fs) = Some (Dir w m) \<and> cwd fs' = cwd fs
           \<and> ((\<exists>w' m'. m d = Some (Dir w' m') \<and> fs' = fs)
               \<or> (m d = None \<and> w
                   \<and> lookup_at (cwd fs') (tree fs') = Some (Dir w (m(d \<mapsto> Dir True Map.empty)))))"
proof -
  obtain w m where l: "lookup_at (cwd fs) (tree fs) = Some (Dir w m)"
    using assms by (auto simp: makedirs_simple split: option.splits node.splits)
  show ?thesis
  proof (cases "m d")
    case None
    then have w and "fs' = fs\<lparr>tree := update_at (cwd fs) (add_entry d (Dir True Map.empty)) (tree fs)\<rparr>"
      using assms l by (auto simp: makedirs_simple split: if_splits)
    then show ?thesis using l None lookup_after_mkdir[OF l] by auto
  next
    case (Some n)
    then show ?thesis using assms l by (cases n) (auto simp: makedirs_simple)
  qed
qed

lemma makedirs_fails_iff:
  assumes "simple d"
  shows "(\<exists>fs'. makedirs d True fs = Inr fs') = (isdir fs d \<or> (stat fs d = None \<and> writable fs))"
  using assms
  by (auto simp: makedirs_simple isdir_simple free_writable_simple split: option.splits node.splits)

lemma makedirs_keeps:
  assumes "simple d" and "simple x" and "makedirs d True fs = Inr fs'"
  shows "isdir fs x \<Longrightarrow> isdir fs' x"
    and "isdir fs' d"
    and "x \<noteq> d \<Longrightarrow> (isdir fs' x \<or> (stat fs' x = None \<and> writable fs')) =
                       (isdir fs x \<or> (stat fs x = None \<and> writable fs))"
  using makedirs_step[OF assms(1,3)] assms(1,2)
  by (auto simp: isdir_simple free_writable_simple)

lemma makedirs_each_success_iff:
  "\<forall>d\<in>set ds. simple d \<Longrightarrow>
   (fst (makedirs_each ds fs) = None) =
   (\<forall>d\<in>set ds. isdir fs d \<or> (stat fs d = None \<and> writable fs))"
proof (induction ds arbitrary: fs)
  case Nil
  then show ?case by simp
next
  case (Cons d ds)
  have sd: "simple d" and sds: "\<forall>x\<in>set ds. simple x" using Cons.prems by auto
  show ?case
  proof (cases "makedirs d True fs")
    case (Inl e)
    then have "\<not> (isdir fs d \<or> (stat fs d = None \<and> writable fs))"
      using makedirs_fails_iff[OF sd, of fs] by auto
    then have "\<not> (\<forall>x\<in>set (d # ds). isdir fs x \<or> (stat fs x = None \<and> writable fs))"
      by auto
    moreover have "fst (makedirs_each (d # ds) fs) \<noteq> None" using Inl by simp
    ultimately show ?thesis by blast
  next
    case (Inr fs')
    have ok: "isdir fs d \<or> (stat fs d = None \<and> writable fs)"
      using makedirs_fails_iff[OF sd, of fs] Inr by auto
    have "(\<forall>x\<in>set ds. isdir fs' x \<or> (stat fs' x = None \<and> writable fs')) =
          (\<forall>x\<in>set ds. isdir fs x \<or> (stat fs x = None \<and> writable fs))"
    proof (rule ball_cong[OF refl])
      fix x assume "x \<in> set ds"
      then have sx: "simple x" using sds by auto
      show "(isdir fs' x \<or> (stat fs' x = None \<and> writable fs')) =
            (isdir fs x \<or> (stat fs x = None \<and> writable fs))"
      proof (cases "x = d")
        case True
        then show ?thesis using makedirs_keeps(2)[OF sd sx Inr] ok by simp
      next
        case False
        then show ?thesis using makedirs_keeps(3)[OF sd sx Inr] by simp
      qed
    qed
    moreover have "fst (makedirs_each (d # ds) fs) = fst (makedirs_each ds fs')" using Inr by simp
    ultimately show ?thesis using Cons.IH[OF sds, of fs'] ok by auto
  qed
qed

lemma makedirs_each_result:
  "\<forall>d\<in>set ds. simple d \<Longrightarrow> makedirs_each ds fs = (None, fs') \<Longrightarrow>
   (\<forall>d\<in>set ds. isdir fs' d) \<and> (\<forall>x. simple x \<longrightarrow> isdir fs x \<longrightarrow> isdir fs' x)"
proof (induction ds arbitrary: fs)
  case Nil
  then show ?case by simp
next
  case (Cons d ds)
  have sd: "simple d" and sds: "\<forall>x\<in>set ds. simple x" using Cons.prems by auto
  obtain fs1 where m: "makedirs d True fs = Inr fs1" and r: "makedirs_each ds fs1 = (None, fs')"
    using Cons.prems(2) by (auto split: sum.splits)
  have d1: "isdir fs1 d" using makedirs_keeps(2)[OF sd sd m] .
  have keep: "\<forall>x. simple x \<longrightarrow> isdir fs x \<longrightarrow> isdir fs1 x"
    using makedirs_keeps(1)[OF sd _ m] by blast
  from Cons.IH[OF sds r] d1 keep sd show ?case by auto
qed

lemma folders_simple: "\<forall>d\<in>set folders. simple d"
  by (simp add: folders_def simple_def UPLOAD_FOLDER_def PROCESSED_FOLDER_def
      TEMPLATES_FOLDER_def STATIC_FOLDER_def)

lemma create_directories_success_iff:
  "(fst (create_directories fs) = None) =
   (\<forall>d\<in>set folders. isdir fs d \<or> (stat fs d = None \<and> writable fs))"
  unfolding create_directories_def by (rule makedirs_each_success_iff[OF folders_simple])

lemma create_directories_result:
  "create_directories fs = (None, fs') \<Longrightarrow> \<forall>d\<in>set folders. isdir fs' d"
  unfolding create_directories_def using makedirs_each_result[OF folders_simple] by blast

lemma create_directories_all_dirs:
  "\<forall>d\<in>set folders. isdir fs d \<Longrightarrow> create_directories fs = (None, fs)"
  unfolding create_directories_def using makedirs_each_all_dirs folders_simple by blast

lemma url_map_app:
  "url_map (app env) = [Rule (With_path ''/static'') default_methods Static_endpoint,
                        Rule (Literal ''/'') default_methods Index_endpoint]"
  by (simp add: app_def route_def config_set_def Flask_def)

lemma app_fields:
  "root_path (app env) = app_dir env"
  "static_folder (app env) = ''static''"
  "config (app env) ''USE_X_SENDFILE'' = Some (Bool_value False)"
  "config (app env) ''SEND_FILE_MAX_AGE_DEFAULT'' = Some None_value"
  "config (app env) ''TRAP_HTTP_EXCEPTIONS'' = Some (Bool_value False)"
  by (simp_all add: app_def route_def config_set_def Flask_def default_config_def)

lemma safe_join_index: "safe_join TEMPLATES_FOLDER ''index.html'' = Some ''templates/index.html''"
  by (simp add: safe_join_def normpath_def startswith_def path_join_def TEMPLATES_FOLDER_def
      split_sep_def)

lemma guess_type_index: "guess_type env ''index.html'' = types_map env ''.html''"
  by (simp add: guess_type_def splitext_def suffix_map_def encodings_map_def lower_def)

lemma last_split_index: "last (split_sep ''templates/index.html'') = ''index.html''"
  by (simp add: split_sep_def)

lemma index_eq:
  "index env ((app env)\<lparr>got_first_request := g\<rparr>) fs r =
     (case stat_from fs (app_dir env) ''templates/index.html'' of
        Some (File readable mt c) \<Rightarrow>
          if readable
          then make_conditional env r (abs_path (app_dir env) ''templates/index.html'') mt (length c)
                 (Response 200
                    (Some (case types_map env ''.html'' of
                             Some t \<Rightarrow> t | None \<Rightarrow> ''application/octet-stream''))
                    c None)
          else Inl (OS PermissionError)
      | _ \<Rightarrow> Inl (HTTP NotFound),
      fs)"
  by (simp add: index_def send_from_directory_def safe_join_index isfile_from_def send_file_def
      app_fields get_send_file_max_age_def max_age_of_def truthy_def guess_type_index
      last_split_index
      split: option.splits node.splits)

lemma match_request_root:
  "path_part (path r) = ''/'' \<Longrightarrow>
   match_request ((app env)\<lparr>got_first_request := g\<rparr>) r =
     (if upper (request_method r) \<in> set default_methods then Inr (Index_endpoint, [])
      else Inl MethodNotAllowed)"
  by (simp add: match_request_def url_map_app startswith_def)

lemma handle_http:
  "handle_user_exception ((app env)\<lparr>got_first_request := g\<rparr>) (HTTP e) = Error_response e"
  by (simp add: handle_user_exception_def app_fields truthy_def)

lemma handle_other:
  "(\<forall>e. x \<noteq> HTTP e) \<Longrightarrow> handle_user_exception a x = Error_response InternalServerError"
  by (cases x) (simp_all add: handle_user_exception_def)



lemma root_response:
  assumes "path_part (path r) = ''/''"
  shows "full_dispatch_request env ((app env)\<lparr>got_first_request := g\<rparr>) fs r =
     (if upper (request_method r) \<in> set default_methods
      then (if upper (request_method r) = ''OPTIONS'' then Response 200 (Some ''text/html'') [] None
            else (case stat_from fs (app_dir env) ''templates/index.html'' of
                    Some (File readable mt c) \<Rightarrow>
                      if readable
                      then (case make_conditional env r
                                   (abs_path (app_dir env) ''templates/index.html'') mt (length c)
                                   (Response 200
                                      (Some (case types_map env ''.html'' of
                                               Some t \<Rightarrow> t | None \<Rightarrow> ''application/octet-stream''))
                                      c None) of
                              Inl x \<Rightarrow> handle_user_exception ((app env)\<lparr>got_first_request := True\<rparr>) x
                            | Inr (Response s t d m) \<Rightarrow>
                                Response s t (if request_method r = ''HEAD'' then [] else d) m
                            | Inr (Error_response e) \<Rightarrow> Error_response e)
                      else Error_response InternalServerError
                  | _ \<Rightarrow> Error_response NotFound))
      else Error_response MethodNotAllowed,
      (app env)\<lparr>got_first_request := True\<rparr>, fs)"
  using assms
  by (simp add: full_dispatch_request_def Let_def match_request_root dispatch_request_def index_eq
      handle_http handle_other
      split: option.splits node.splits sum.splits response.splits)

lemma send_file_frame: "snd (send_file env fs r base p u ma) = fs"
  by (simp add: send_file_def Let_def split: option.splits node.splits sum.splits)

lemma send_from_directory_frame: "snd (send_from_directory env a fs r d p ma) = fs"
  by (simp add: send_from_directory_def send_file_frame split: option.splits)

lemma dispatch_request_frame: "snd (dispatch_request env a fs r ep arg) = fs"
  by (simp add: dispatch_request_def index_def send_static_file_def send_from_directory_frame
      split: endpoint.splits sum.splits)

lemma full_dispatch_request_frame: "snd (snd (full_dispatch_request env a fs r)) = fs"
  using dispatch_request_frame[of env "a\<lparr>got_first_request := True\<rparr>" fs r]
  by (auto simp: full_dispatch_request_def Let_def split_beta
      split: sum.splits response.splits)

lemma full_dispatch_request_app:
  "fst (snd (full_dispatch_request env a fs r)) = a\<lparr>got_first_request := True\<rparr>"
  by (auto simp: full_dispatch_request_def Let_def split_beta
      split: sum.splits response.splits)

lemma full_dispatch_request_flag:
  "full_dispatch_request env (a\<lparr>got_first_request := g\<rparr>) fs r = full_dispatch_request env a fs r"
  by (simp add: full_dispatch_request_def)

lemma full_dispatch_request_eq:
  "full_dispatch_request env a fs r =
     (fst (full_dispatch_request env a fs r), a\<lparr>got_first_request := True\<rparr>, fs)"
  using full_dispatch_request_frame[of env a fs r] full_dispatch_request_app[of env a fs r]
  by (simp add: prod_eq_iff)

lemma serve_request:
  "serve env a fs (Request r # es) =
     (fst (full_dispatch_request env a fs r) # fst (serve env (a\<lparr>got_first_request := True\<rparr>) fs es),
      snd (serve env (a\<lparr>got_first_request := True\<rparr>) fs es))"
  by (subst serve.simps, subst full_dispatch_request_eq) (simp add: split_beta)


lemma serve_frame:
  "snd (snd (serve env a fs es)) =
     fold (\<lambda>e s. case e of Change f \<Rightarrow> f s | Request _ \<Rightarrow> s) es fs"
proof (induction es arbitrary: fs a)
  case Nil
  then show ?case by simp
next
  case (Cons e es)
  show ?case
  proof (cases e)
    case (Request r)
    then show ?thesis using Cons.IH[of "a\<lparr>got_first_request := True\<rparr>" fs]
      by (simp only: serve_request) simp
  next
    case (Change f)
    then show ?thesis using Cons.IH[of a "f fs"] by simp
  qed
qed

lemma serve_requests_only: "snd (snd (serve env a fs (map Request rs))) = fs"
  by (simp add: serve_frame) (induction rs, simp_all)








lemma dispatch_config_cong:
  assumes "url_map a = url_map b" and "root_path a = root_path b"
    and "static_folder a = static_folder b"
    and "config a ''USE_X_SENDFILE'' = config b ''USE_X_SENDFILE''"
    and "config a ''SEND_FILE_MAX_AGE_DEFAULT'' = config b ''SEND_FILE_MAX_AGE_DEFAULT''"
    and "config a ''TRAP_HTTP_EXCEPTIONS'' = config b ''TRAP_HTTP_EXCEPTIONS''"
  shows "fst (full_dispatch_request env a fs r) = fst (full_dispatch_request env b fs r)"
proof -
  let ?a = "a\<lparr>got_first_request := True\<rparr>" and ?b = "b\<lparr>got_first_request := True\<rparr>"
  have u: "url_map ?a = url_map ?b" "root_path ?a = root_path ?b"
      "static_folder ?a = static_folder ?b"
      "config ?a ''USE_X_SENDFILE'' = config ?b ''USE_X_SENDFILE''"
      "config ?a ''SEND_FILE_MAX_AGE_DEFAULT'' = config ?b ''SEND_FILE_MAX_AGE_DEFAULT''"
      "config ?a ''TRAP_HTTP_EXCEPTIONS'' = config ?b ''TRAP_HTTP_EXCEPTIONS''"
    using assms by simp_all
  have m: "match_request ?a r = match_request ?b r"
    unfolding match_request_def u(1) by (rule refl)
  have g: "get_send_file_max_age ?a = get_send_file_max_age ?b"
    unfolding get_send_file_max_age_def u(5) by (rule refl)
  have s: "\<And>d p ma. send_from_directory env ?a fs r d p ma = send_from_directory env ?b fs r d p ma"
    unfolding send_from_directory_def u(2,4) by (rule refl)
  have d: "\<And>ep arg. dispatch_request env ?a fs r ep arg = dispatch_request env ?b fs r ep arg"
    unfolding dispatch_request_def index_def send_static_file_def g s u(3) by (rule refl)
  have h: "\<And>x. handle_user_exception ?a x = handle_user_exception ?b x"
    unfolding handle_user_exception_def u(6) by (rule refl)
  show ?thesis
    unfolding full_dispatch_request_def Let_def m d h
    by (auto split: sum.splits prod.splits response.splits)
qed

lemma serve_config_cong:
  assumes "url_map a = url_map b" and "root_path a = root_path b"
    and "static_folder a = static_folder b"
    and "config a ''USE_X_SENDFILE'' = config b ''USE_X_SENDFILE''"
    and "config a ''SEND_FILE_MAX_AGE_DEFAULT'' = config b ''SEND_FILE_MAX_AGE_DEFAULT''"
    and "config a ''TRAP_HTTP_EXCEPTIONS'' = config b ''TRAP_HTTP_EXCEPTIONS''"
  shows "fst (serve env a fs es) = fst (serve env b fs es)
         \<and> snd (snd (serve env a fs es)) = snd (snd (serve env b fs es))"
  using assms
proof (induction es arbitrary: fs a b)
  case Nil
  then show ?case by simp
next
  case (Cons e es)
  show ?case
  proof (cases e)
    case (Request r)
    have 1: "fst (full_dispatch_request env a fs r) = fst (full_dispatch_request env b fs r)"
      using Cons.prems by (rule dispatch_config_cong)
    have 2: "fst (serve env (a\<lparr>got_first_request := True\<rparr>) fs es)
               = fst (serve env (b\<lparr>got_first_request := True\<rparr>) fs es)
             \<and> snd (snd (serve env (a\<lparr>got_first_request := True\<rparr>) fs es))
               = snd (snd (serve env (b\<lparr>got_first_request := True\<rparr>) fs es))"
      using Cons.prems by (intro Cons.IH) simp_all
    show ?thesis using Request 1 2 by (simp only: serve_request) simp
  next
    case (Change f)
    then show ?thesis using Cons.IH[OF Cons.prems, of "f fs"] by simp
  qed
qed













lemma stat_example_index:
  "stat_from example_fs [''srv''] ''templates/index.html'' = Some (File True 0 ''hi'')"
  by (simp add: stat_from_def startswith_def split_sep_def)


lemmas provision_simps =
  create_directories_def folders_def UPLOAD_FOLDER_def PROCESSED_FOLDER_def
  TEMPLATES_FOLDER_def STATIC_FOLDER_def makedirs_def mkdir_def isdir_def stat_def stat_from_def
  startswith_def split_sep_def add_entry_def writable_def

lemma create_directories_empty: "create_directories empty_fs = (None, provisioned_fs)"
  by (simp add: provision_simps)






text \<open>An entry of \<open>app.config\<close> that the framework reads does change the response.\<close>

lemma use_x_sendfile_is_read:
  "fst (full_dispatch_request example_env
          (config_set ''USE_X_SENDFILE'' (Bool_value True) (app example_env)) example_fs (get ''/''))
     = Response 200 (Some ''text/html'') [] None"
  by (simp add: full_dispatch_request_def match_request_def Let_def path_part_def upper_def
      config_set_def app_def route_def Flask_def default_config_def default_methods_def
      startswith_def dispatch_request_def index_def send_from_directory_def safe_join_index
      isfile_from_def stat_example_index send_file_def get_send_file_max_age_def max_age_of_def
      truthy_def last_split_index guess_type_index make_conditional_def resource_verdict_def
      validator_keys_def)

section \<open>The index route\<close>






section \<open>Provisioning at startup\<close>

text \<open>
  C3, as the claim states it, for every initial file system: refuted where a regular
  file holds the name \<open>uploads\<close>. \<open>os.makedirs\<close> raises \<open>FileExistsError\<close>, and after the
  step \<open>uploads\<close> is still not a directory.
\<close>

theorem create_directories_file_in_the_way:
  "create_directories occupied_fs = (Some FileExistsError, occupied_fs)
   \<and> \<not> isdir (snd (create_directories occupied_fs)) ''uploads''"
  by (simp add: provision_simps)

text \<open>
  C3, amended. Provisioning raises no error exactly on the initial file systems where
  each of the four names is already a directory, or is free while the working directory
  is writable. Whenever it raises no error, the four directories exist afterwards and a
  second run raises no error and changes nothing. On a file system where the four
  directories already exist it raises no error and changes nothing.
\<close>

theorem create_directories_idempotent:
  "(fst (create_directories fs) = None) =
     (\<forall>d\<in>set folders. isdir fs d \<or> (stat fs d = None \<and> writable fs))
   \<and> (create_directories fs = (None, fs') \<longrightarrow>
        (\<forall>d\<in>set folders. isdir fs' d) \<and> create_directories fs' = (None, fs'))
   \<and> ((\<forall>d\<in>set folders. isdir fs d) \<longrightarrow> create_directories fs = (None, fs))"
proof (intro conjI impI)
  show "(fst (create_directories fs) = None) =
     (\<forall>d\<in>set folders. isdir fs d \<or> (stat fs d = None \<and> writable fs))"
    by (rule create_directories_success_iff)
next
  assume "create_directories fs = (None, fs')"
  then show d: "\<forall>d\<in>set folders. isdir fs' d" by (rule create_directories_result)
  show "create_directories fs' = (None, fs')" using d by (rule create_directories_all_dirs)
next
  assume "\<forall>d\<in>set folders. isdir fs d"
  then show "create_directories fs = (None, fs)" by (rule create_directories_all_dirs)
qed

theorem create_directories_idempotent_witness:
  "fst (create_directories empty_fs) = None
   \<and> isdir (snd (create_directories empty_fs)) ''uploads''
   \<and> isdir (snd (create_directories empty_fs)) ''processed_videos''
   \<and> isdir (snd (create_directories empty_fs)) ''templates''
   \<and> isdir (snd (create_directories empty_fs)) ''static''
   \<and> create_directories (snd (create_directories empty_fs)) =
       (None, snd (create_directories empty_fs))"
proof -
  let ?fs = "empty_fs"
  let ?fs' = "snd (create_directories ?fs)"
  have h: "\<forall>d\<in>set folders. isdir ?fs d \<or> (stat ?fs d = None \<and> writable ?fs)"
    by (simp add: provision_simps)
  have a: "fst (create_directories ?fs) = None"
    using create_directories_idempotent[of ?fs ?fs'] h by blast
  then have e: "create_directories ?fs = (None, ?fs')"
    by (simp add: prod_eq_iff)
  have b: "(\<forall>d\<in>set folders. isdir ?fs' d) \<and> create_directories ?fs' = (None, ?fs')"
    using create_directories_idempotent[of ?fs ?fs'] e by blast
  then have d: "isdir ?fs' ''uploads'' \<and> isdir ?fs' ''processed_videos''
                \<and> isdir ?fs' ''templates'' \<and> isdir ?fs' ''static''"
    by (simp add: folders_def UPLOAD_FOLDER_def PROCESSED_FOLDER_def TEMPLATES_FOLDER_def
        STATIC_FOLDER_def)
  have "create_directories ?fs' = (None, ?fs')"
    using create_directories_idempotent[of ?fs' ?fs] b by blast
  then show ?thesis using a d by blast
qed

text \<open>
  C4. The script serves only after the four \<open>os.makedirs\<close> calls have returned. If one
  of them raises, the script ends with that error and no request is answered; this is
  what happens when a regular file holds one of the four names. Every response of a run
  is computed by the serving loop started on the file system the four successful calls
  left, in which the four directories exist.
\<close>

theorem serving_requires_provisioning:
  "(create_directories fs = (Some e, fs') \<longrightarrow> main env fs es = Crashed e fs')
   \<and> (main env fs es = Served rvs fs'' \<longrightarrow>
        (\<exists>fs1. create_directories fs = (None, fs1) \<and> (\<forall>d\<in>set folders. isdir fs1 d)
               \<and> fst (serve env (app env) fs1 es) = rvs
               \<and> snd (snd (serve env (app env) fs1 es)) = fs''))
   \<and> (d \<in> set folders \<and> stat fs d = Some (File readable mt c)
       \<longrightarrow> (\<exists>e1 fs1. main env fs es = Crashed e1 fs1))"
proof (intro conjI impI)
  assume "create_directories fs = (Some e, fs')"
  then show "main env fs es = Crashed e fs'" by (simp add: main_def program_def)
next
  assume s: "main env fs es = Served rvs fs''"
  obtain x fs1 where c: "create_directories fs = (x, fs1)" by (cases "create_directories fs")
  have x: "x = None" using s c by (cases x) (simp_all add: main_def program_def)
  then have "fst (serve env (app env) fs1 es) = rvs \<and> snd (snd (serve env (app env) fs1 es)) = fs''"
    using s c by (simp add: main_def program_def split_beta)
  moreover have "\<forall>d\<in>set folders. isdir fs1 d"
    using create_directories_result[of fs fs1] c x by blast
  ultimately show "\<exists>fs1. create_directories fs = (None, fs1) \<and> (\<forall>d\<in>set folders. isdir fs1 d)
               \<and> fst (serve env (app env) fs1 es) = rvs
               \<and> snd (snd (serve env (app env) fs1 es)) = fs''"
    using c x by blast
next
  assume f: "d \<in> set folders \<and> stat fs d = Some (File readable mt c)"
  then have "\<not> (isdir fs d \<or> (stat fs d = None \<and> writable fs))" by (simp add: isdir_def)
  then have "fst (create_directories fs) \<noteq> None"
    using create_directories_success_iff[of fs] f by blast
  then obtain e1 fs1 where "create_directories fs = (Some e1, fs1)"
    by (cases "create_directories fs") auto
  then show "\<exists>e1 fs1. main env fs es = Crashed e1 fs1" by (simp add: main_def program_def)
qed

theorem serving_requires_provisioning_witness:
  "main example_env occupied_fs [Request (get ''/'')] = Crashed FileExistsError occupied_fs
   \<and> (\<exists>e1 fs1. main example_env occupied_fs [] = Crashed e1 fs1)
   \<and> (\<exists>fs1. create_directories empty_fs = (None, fs1)
             \<and> isdir fs1 ''uploads'' \<and> isdir fs1 ''static''
             \<and> fst (serve example_env (app example_env) fs1 []) = [])"
proof -
  have h1: "create_directories occupied_fs = (Some FileExistsError, occupied_fs)"
    by (simp add: provision_simps)
  have h2: "main example_env empty_fs [] = Served [] provisioned_fs"
    by (simp add: main_def program_def create_directories_empty)
  have h3: "''uploads'' \<in> set folders \<and> stat occupied_fs ''uploads'' = Some (File True 0 ''x'')"
    by (simp add: provision_simps)
  have c1: "main example_env occupied_fs [Request (get ''/'')] = Crashed FileExistsError occupied_fs"
    using serving_requires_provisioning[where fs=occupied_fs and e=FileExistsError
        and fs'=occupied_fs and env=example_env and es="[Request (get ''/'')]"] h1 by blast
  have c2: "\<exists>e1 fs1. main example_env occupied_fs [] = Crashed e1 fs1"
    using serving_requires_provisioning[where fs=occupied_fs and env=example_env and es="[]"
        and d="''uploads''" and readable=True and mt=0 and c="''x''"] h3 by blast
  have "\<exists>fs1. create_directories empty_fs = (None, fs1) \<and> (\<forall>d\<in>set folders. isdir fs1 d)
             \<and> fst (serve example_env (app example_env) fs1 []) = []
             \<and> snd (snd (serve example_env (app example_env) fs1 [])) = provisioned_fs"
    using serving_requires_provisioning[where fs=empty_fs and env=example_env and es="[]"
        and rvs="[]" and fs''=provisioned_fs] h2
    by blast
  then have c3: "\<exists>fs1. create_directories empty_fs = (None, fs1)
             \<and> isdir fs1 ''uploads'' \<and> isdir fs1 ''static''
             \<and> fst (serve example_env (app example_env) fs1 []) = []"
    by (auto simp: folders_def UPLOAD_FOLDER_def STATIC_FOLDER_def)
  show ?thesis using c1 c2 c3 by blast
qed

section \<open>Routes\<close>






section \<open>Effects and dependencies of request handling\<close>

text \<open>
  C7. Handling a request leaves the file system as it found it, whatever the request:
  the views only test for a file and read it. Over a run of the serving loop the file
  system changes by the outside changes alone, and a run that sees only requests ends
  with the file system that provisioning left.
\<close>

theorem request_handling_preserves_filesystem:
  "snd (snd (full_dispatch_request env (app env) fs r)) = fs
   \<and> snd (snd (serve env (app env) fs es)) =
       fold (\<lambda>e s. case e of Change f \<Rightarrow> f s | Request _ \<Rightarrow> s) es fs
   \<and> snd (snd (serve env (app env) fs (map Request rs))) = fs
   \<and> (main env fs (map Request rs) = Served rvs fs' \<longrightarrow> fs' = snd (create_directories fs))"
proof (intro conjI impI)
  show "snd (snd (full_dispatch_request env (app env) fs r)) = fs"
    by (rule full_dispatch_request_frame)
  show "snd (snd (serve env (app env) fs es)) =
          fold (\<lambda>e s. case e of Change f \<Rightarrow> f s | Request _ \<Rightarrow> s) es fs"
    by (rule serve_frame)
  show "snd (snd (serve env (app env) fs (map Request rs))) = fs" by (rule serve_requests_only)
next
  assume s: "main env fs (map Request rs) = Served rvs fs'"
  obtain x fs1 where c: "create_directories fs = (x, fs1)" by (cases "create_directories fs")
  have x: "x = None" using s c by (cases x) (simp_all add: main_def program_def)
  have "fs' = snd (snd (serve env (app env) fs1 (map Request rs)))"
    using s c x by (simp add: main_def program_def split_beta)
  then show "fs' = snd (create_directories fs)" using c by (simp add: serve_requests_only)
qed

theorem request_handling_preserves_filesystem_witness:
  "snd (snd (serve example_env (app example_env) example_fs
          (map Request [get ''/'', get_range ''/static/app.js'' ''bytes=0-0''])))
     = example_fs
   \<and> provisioned_fs = snd (create_directories empty_fs)"
proof -
  have d: "fst (full_dispatch_request example_env (app example_env) provisioned_fs (get ''/''))
             = Error_response NotFound"
  proof -
    have "fst (full_dispatch_request example_env ((app example_env)\<lparr>got_first_request := False\<rparr>)
                  provisioned_fs (get ''/'')) = Error_response NotFound"
      by (subst root_response)
         (simp_all add: path_part_def upper_def default_methods_def stat_from_def startswith_def)
    then show ?thesis by (simp add: full_dispatch_request_flag)
  qed
  have f: "snd (snd (full_dispatch_request example_env (app example_env) provisioned_fs (get ''/'')))
             = provisioned_fs"
    by (rule full_dispatch_request_frame)
  have h: "main example_env empty_fs (map Request [get ''/'']) =
             Served [Error_response NotFound] provisioned_fs"
    using d f by (simp add: main_def program_def create_directories_empty split_beta)
  have "provisioned_fs = snd (create_directories empty_fs)"
    using request_handling_preserves_filesystem[where env=example_env and fs=empty_fs
        and rs="[get ''/'']" and rvs="[Error_response NotFound]" and fs'=provisioned_fs] h
    by blast
  then show ?thesis
    using request_handling_preserves_filesystem[where env=example_env and fs=example_fs
        and rs="[get ''/'', get_range ''/static/app.js'' ''bytes=0-0'']"]
    by blast
qed






text \<open>
  C10. The script assigns \<open>UPLOAD_FOLDER\<close> and \<open>PROCESSED_FOLDER\<close> in \<open>app.config\<close>, and
  no code path reads them: the entries that request handling reads are others. The
  script without the two assignments has the same outcome on every initial file system
  and every sequence of events: the same error or the same responses, and the same
  final file system.
\<close>

theorem config_entries_unused:
  "main_without_config env fs es = main env fs es
   \<and> config (app env) ''UPLOAD_FOLDER'' = Some (Str_value UPLOAD_FOLDER)
   \<and> config (app env) ''PROCESSED_FOLDER'' = Some (Str_value PROCESSED_FOLDER)
   \<and> config (app_without_config env) ''UPLOAD_FOLDER'' = None
   \<and> config (app_without_config env) ''PROCESSED_FOLDER'' = None"
proof -
  have s: "\<And>fs1. fst (serve env (app_without_config env) fs1 es) = fst (serve env (app env) fs1 es)
         \<and> snd (snd (serve env (app_without_config env) fs1 es))
             = snd (snd (serve env (app env) fs1 es))"
    by (rule serve_config_cong)
       (simp_all add: app_without_config_def app_def route_def config_set_def Flask_def)
  have p: "program env (app_without_config env) fs es = program env (app env) fs es"
    unfolding program_def using s by (auto simp: split_beta split: prod.splits option.splits)
  have c: "config (app env) ''UPLOAD_FOLDER'' = Some (Str_value UPLOAD_FOLDER)"
    "config (app env) ''PROCESSED_FOLDER'' = Some (Str_value PROCESSED_FOLDER)"
    "config (app_without_config env) ''UPLOAD_FOLDER'' = None"
    "config (app_without_config env) ''PROCESSED_FOLDER'' = None"
    by (simp_all add: app_without_config_def app_def route_def config_set_def Flask_def
        default_config_def)
  show ?thesis using p c by (simp add: main_without_config_def main_def)
qed

theorem config_entries_unused_witness:
  "main_without_config example_env empty_fs [Request (get ''/'')]
     = main example_env empty_fs [Request (get ''/'')]"
  using config_entries_unused[where env=example_env and fs=empty_fs and es="[Request (get ''/'')]"]
  by blast

end
